theory Spec2Isabelle
  imports Complex_Main
begin

section \<open>Evacuation guidance service\<close>

text \<open>
  A shallow embedding of \<^verbatim>\<open>backend/services/evacuation_guidance_service.py\<close>.
  Python \<^verbatim>\<open>float\<close> values are read as the real numbers they denote (no NaN, no
  infinities, no signed zero); Python \<^verbatim>\<open>str\<close> is \<^typ>\<open>string\<close>; \<^verbatim>\<open>None\<close> is
  \<^term>\<open>None\<close>; a raised \<^verbatim>\<open>Exception\<close> is the \<^term>\<open>Inl\<close> branch of a sum.
\<close>

subsection \<open>Python built-ins used by the module\<close>

text \<open>\<^verbatim>\<open>round(x)\<close> with one argument: nearest integer, ties to the even one.\<close>

definition py_round :: "real \<Rightarrow> int" where
  "py_round x =
     (let f = \<lfloor>x\<rfloor>; r = x - of_int f
      in if r < 1 / 2 then f else if 1 / 2 < r then f + 1 else if even f then f else f + 1)"

text \<open>\<^verbatim>\<open>x % m\<close> on floats: the result takes the sign of the divisor.\<close>

definition py_fmod :: "real \<Rightarrow> real \<Rightarrow> real" where
  "py_fmod x m = x - m * of_int \<lfloor>x / m\<rfloor>"

definition radians :: "real \<Rightarrow> real" where
  "radians d = d * pi / 180"

definition degrees :: "real \<Rightarrow> real" where
  "degrees r = r * 180 / pi"

text \<open>
  \<^verbatim>\<open>math.atan2(a, b)\<close>: the angle in \<open>(-\<pi>, \<pi>]\<close> of the point with abscissa \<open>b\<close> and
  ordinate \<open>a\<close>; \<^verbatim>\<open>atan2(0, 0)\<close> is \<open>0\<close>.
\<close>

definition atan2 :: "real \<Rightarrow> real \<Rightarrow> real" where
  "atan2 a b =
     (if 0 < b then arctan (a / b)
      else if b < 0 then (if 0 \<le> a then arctan (a / b) + pi else arctan (a / b) - pi)
      else if 0 < a then pi / 2
      else if a < 0 then - (pi / 2)
      else 0)"

definition digit_char :: "nat \<Rightarrow> char" where
  "digit_char d = ''0123456789'' ! d"

text \<open>\<^verbatim>\<open>str(n)\<close> for a natural number: its decimal digits.\<close>

fun str_nat :: "nat \<Rightarrow> string" where
  "str_nat n = (if n < 10 then [digit_char n] else str_nat (n div 10) @ [digit_char (n mod 10)])"

declare str_nat.simps [simp del]

text \<open>
  The format specification \<^verbatim>\<open>:.Nf\<close>: fixed notation with \<open>prec\<close> digits after the
  point, the value correctly rounded (ties to even), a minus sign for a negative value and
  no point when \<open>prec\<close> is zero.
\<close>

definition format_fixed :: "nat \<Rightarrow> real \<Rightarrow> string" where
  "format_fixed prec x =
     (let scaled = nat (py_round (\<bar>x\<bar> * 10 ^ prec));
          whole = scaled div 10 ^ prec;
          frac = scaled mod 10 ^ prec;
          frac_digits = str_nat frac
      in (if x < 0 then ''-'' else '''') @ str_nat whole @
         (if prec = 0 then ''''
          else ''.'' @ replicate (prec - length frac_digits) (CHR ''0'') @ frac_digits))"

text \<open>\<^verbatim>\<open>sep.join(xs)\<close>.\<close>

fun join :: "string \<Rightarrow> string list \<Rightarrow> string" where
  "join sep [] = []"
| "join sep [x] = x"
| "join sep (x # y # ys) = x @ sep @ join sep (y # ys)"

subsection \<open>Text composition\<close>

definition build_instruction_text :: "string \<Rightarrow> real option \<Rightarrow> string list \<Rightarrow> string" where
  "build_instruction_text alert_level closest_fire_km warnings =
     (let base =
            (if alert_level \<in> {''critical'', ''high''} then
               ''Immediate evacuation is recommended.''
             else if alert_level = ''medium'' then
               ''Move carefully and prepare to leave the area.''
             else if closest_fire_km \<noteq> None then
               ''No immediate evacuation is required, but stay alert.''
             else ''No nearby fire was detected from the current feed.'');
          base =
            (case closest_fire_km of
               Some km \<Rightarrow> base @ '' The nearest fire is about '' @ format_fixed 1 km @ '' kilometers away.''
             | None \<Rightarrow> base);
          base =
            (case warnings of
               w # _ \<Rightarrow> base @ '' Warning: '' @ w @ ''.''
             | [] \<Rightarrow> base)
      in base)"

text \<open>The text returned when no direction or no destination distance is available.\<close>

definition fallback_clause :: string where
  "fallback_clause =
     '' A verified escape path is not available right now. '' @
     ''If conditions worsen, move away from smoke and flames, keep low, and contact emergency services.''"

text \<open>Truthiness of an optional string: \<^verbatim>\<open>None\<close> and the empty string are false.\<close>

fun truthy_str :: "string option \<Rightarrow> bool" where
  "truthy_str None = False"
| "truthy_str (Some s) = (s \<noteq> [])"

definition build_guidance_text ::
  "string option \<Rightarrow> string option \<Rightarrow> real option \<Rightarrow> real option \<Rightarrow> real option \<Rightarrow>
   string list \<Rightarrow> string \<Rightarrow> real option \<Rightarrow> string list \<Rightarrow> string" where
  "build_guidance_text destination_name destination_direction destination_distance_km
     route_distance_km route_duration_minutes route_steps alert_level closest_fire_km warnings =
     (let intro = build_instruction_text alert_level closest_fire_km warnings in
      if \<not> truthy_str destination_direction \<or> destination_distance_km = None then
        intro @ fallback_clause
      else
        (case (destination_direction, destination_distance_km) of
           (Some direction, Some distance_km) \<Rightarrow>
             (let location_phrase = ''toward the '' @ direction;
                  location_phrase =
                    (case destination_name of
                       Some n \<Rightarrow> if n \<noteq> [] then location_phrase @ '' to reach '' @ n
                                 else location_phrase
                     | None \<Rightarrow> location_phrase);
                  route_phrase = '' for about '' @ format_fixed 1 distance_km @ '' kilometers'';
                  route_phrase =
                    (case (route_distance_km, route_duration_minutes) of
                       (Some rd, Some rm) \<Rightarrow>
                         '' for about '' @ format_fixed 1 rd @ '' kilometers, roughly '' @
                         format_fixed 0 rm @ '' minutes''
                     | _ \<Rightarrow> route_phrase);
                  steps_text =
                    (if route_steps \<noteq> [] then
                       '' Follow these steps: '' @ join '' Then '' (take 3 route_steps) @ ''.''
                     else '''')
              in intro @ '' Head '' @ location_phrase @ route_phrase @ ''.'' @ steps_text)
         | _ \<Rightarrow> intro @ fallback_clause))"

subsection \<open>Bearing\<close>

definition directions :: "string list" where
  "directions =
     [''north'', ''northeast'', ''east'', ''southeast'',
      ''south'', ''southwest'', ''west'', ''northwest'']"

definition bearing_to_cardinal :: "real \<Rightarrow> real \<Rightarrow> real \<Rightarrow> real \<Rightarrow> string" where
  "bearing_to_cardinal origin_lat origin_lng dest_lat dest_lng =
     (let lat1 = radians origin_lat;
          lat2 = radians dest_lat;
          diff_lng = radians (dest_lng - origin_lng);
          x = sin diff_lng * cos lat2;
          y = cos lat1 * sin lat2 - sin lat1 * cos lat2 * cos diff_lng;
          initial_bearing = degrees (atan2 x y);
          normalized = py_fmod (initial_bearing + 360) 360;
          index = nat (py_round (normalized / 45) mod int (length directions))
      in directions ! index)"

subsection \<open>Data exchanged with the collaborators\<close>

text \<open>
  The collaborator modules (\<^verbatim>\<open>fire_service\<close>, \<^verbatim>\<open>osm_service\<close>, \<^verbatim>\<open>routing_service\<close>,
  \<^verbatim>\<open>cell_service\<close>) are imported by the module and are not part of it. Their data is
  declared here with the attributes the module reads.
\<close>

text \<open>An exception caught by \<^verbatim>\<open>except Exception as exc\<close>; \<^verbatim>\<open>str(exc)\<close> is its message.\<close>

datatype error = Error (message: string)

text \<open>Modelled from the spec: Fire, \<^verbatim>\<open>{ distanceKm: float }\<close>.\<close>

record fire =
  fire_distance_km :: real

text \<open>
  Modelled from the spec: AlertLevel, enumerated \<^verbatim>\<open>{none, low, medium, high, critical}\<close>,
  with the string each member serialises to (its \<^verbatim>\<open>.value\<close>).
\<close>

datatype AlertLevel = NONE | LOW | MEDIUM | HIGH | CRITICAL

fun enum_value :: "AlertLevel \<Rightarrow> string" where
  "enum_value NONE = ''none''"
| "enum_value LOW = ''low''"
| "enum_value MEDIUM = ''medium''"
| "enum_value HIGH = ''high''"
| "enum_value CRITICAL = ''critical''"

text \<open>
  The local variable \<^verbatim>\<open>alert_level\<close> holds either the collaborator's enumeration member
  or, after a failure, the plain string \<^verbatim>\<open>"none"\<close>.
\<close>

datatype alert_var = Member AlertLevel | Plain string

text \<open>\<^verbatim>\<open>alert_level.value if hasattr(alert_level, "value") else str(alert_level)\<close>.\<close>

fun alert_text :: "alert_var \<Rightarrow> string" where
  "alert_text (Member l) = enum_value l"
| "alert_text (Plain s) = s"

text \<open>
  Modelled from the spec: SafePlace,
  \<^verbatim>\<open>{ id, name, latitude, longitude, distanceKm, isInDangerZone: bool }\<close>.
\<close>

record safe_place =
  place_id :: string
  place_name :: string
  place_latitude :: real
  place_longitude :: real
  place_distance_km :: real
  is_in_danger_zone :: bool

text \<open>
  Modelled from the spec: Route,
  \<^verbatim>\<open>{ distanceKm, durationMinutes, steps: ordered sequence of {instruction: string} }\<close>.
\<close>

record route_step =
  instruction :: string

record route =
  route_km :: real
  route_minutes :: real
  steps :: "route_step list"

text \<open>The dictionary built for each candidate: keys \<^verbatim>\<open>lat\<close>, \<^verbatim>\<open>lng\<close>, \<^verbatim>\<open>name\<close>, \<^verbatim>\<open>id\<close>.\<close>

record destination_dict =
  dest_lat :: real
  dest_lng :: real
  dest_name :: string
  dest_id :: string

text \<open>Values a coverage dictionary may hold, with Python's truthiness.\<close>

datatype py_val = PyNone | PyBool bool | PyFloat real | PyStr string

fun truthy :: "py_val \<Rightarrow> bool" where
  "truthy PyNone = False"
| "truthy (PyBool b) = b"
| "truthy (PyFloat x) = (x \<noteq> 0)"
| "truthy (PyStr s) = (s \<noteq> [])"

text \<open>\<^verbatim>\<open>d.get(k)\<close>: the stored value, or \<^verbatim>\<open>None\<close> for a missing key.\<close>

definition dict_get :: "(string \<rightharpoonup> py_val) \<Rightarrow> string \<Rightarrow> py_val" where
  "dict_get d k = (case d k of None \<Rightarrow> PyNone | Some v \<Rightarrow> v)"

text \<open>
  The six collaborators, each a function of its arguments that returns a value or raises.
  Every collaborator is called at most once per request. Danger zones are opaque to the
  module: \<open>'z\<close>.
\<close>

record 'z collaborators =
  fetch_fires :: "real \<Rightarrow> real \<Rightarrow> real \<Rightarrow> error + fire list"
  create_danger_zones :: "fire list \<Rightarrow> error + 'z list"
  determine_alert_level :: "real option \<Rightarrow> nat \<Rightarrow> error + AlertLevel"
  fetch_safe_places :: "real \<Rightarrow> real \<Rightarrow> real \<Rightarrow> 'z list \<Rightarrow> error + safe_place list"
  estimate_coverage_simple :: "real \<Rightarrow> real \<Rightarrow> 'z list \<Rightarrow> error + (string \<rightharpoonup> py_val)"
  get_route_to_nearest_safe_place ::
    "real \<Rightarrow> real \<Rightarrow> destination_dict list \<Rightarrow> 'z list \<Rightarrow> error + (route \<times> destination_dict) option"

text \<open>The dictionary returned by \<^verbatim>\<open>build_evacuation_guidance\<close>.\<close>

record guidance_result =
  guidance_text :: string
  alert_level :: string
  closest_fire_km :: "real option"
  destination_name :: "string option"
  destination_direction :: "string option"
  destination_distance_km :: "real option"
  route_distance_km :: "real option"
  route_duration_minutes :: "real option"
  route_steps :: "string list"
  warnings :: "string list"

subsection \<open>The stages of \<^verbatim>\<open>build_evacuation_guidance\<close>\<close>

text \<open>Lines 99 to 104: the handler of the first \<^verbatim>\<open>try\<close>.\<close>

definition risk_failed ::
  "error \<Rightarrow> string list \<Rightarrow> fire list \<times> 'z list \<times> real option \<times> alert_var \<times> string list" where
  "risk_failed exc ws =
     ([], [], None, Plain ''none'', ws @ [''Could not fetch fire data: '' @ message exc])"

text \<open>Lines 94 to 104.\<close>

definition risk_stage ::
  "'z collaborators \<Rightarrow> real \<Rightarrow> real \<Rightarrow> string list \<Rightarrow>
   fire list \<times> 'z list \<times> real option \<times> alert_var \<times> string list" where
  "risk_stage env latitude longitude ws =
     (case fetch_fires env latitude longitude 50 of
        Inl exc \<Rightarrow> risk_failed exc ws
      | Inr fires \<Rightarrow>
          (case create_danger_zones env fires of
             Inl exc \<Rightarrow> risk_failed exc ws
           | Inr danger_zones \<Rightarrow>
               (let closest =
                      (case fires of f # _ \<Rightarrow> Some (fire_distance_km f) | [] \<Rightarrow> None)
                in case determine_alert_level env closest (length fires) of
                     Inl exc \<Rightarrow> risk_failed exc ws
                   | Inr level \<Rightarrow> (fires, danger_zones, closest, Member level, ws))))"

text \<open>Lines 106 to 116.\<close>

definition safe_place_stage ::
  "'z collaborators \<Rightarrow> real \<Rightarrow> real \<Rightarrow> 'z list \<Rightarrow> string list \<Rightarrow> safe_place list \<times> string list" where
  "safe_place_stage env latitude longitude danger_zones ws =
     (case fetch_safe_places env latitude longitude 20 danger_zones of
        Inl exc \<Rightarrow> ([], ws @ [''Could not fetch safe places: '' @ message exc])
      | Inr places \<Rightarrow> (filter (\<lambda>place. \<not> is_in_danger_zone place) places, ws))"

definition coverage_warning :: string where
  "coverage_warning = ''Cell coverage may be degraded in your area''"

text \<open>Lines 118 to 120. The call is outside every \<^verbatim>\<open>try\<close>: what it raises, the request raises.\<close>

definition coverage_stage ::
  "'z collaborators \<Rightarrow> real \<Rightarrow> real \<Rightarrow> 'z list \<Rightarrow> string list \<Rightarrow> error + string list" where
  "coverage_stage env latitude longitude danger_zones ws =
     (case estimate_coverage_simple env latitude longitude danger_zones of
        Inl exc \<Rightarrow> Inl exc
      | Inr coverage \<Rightarrow>
          Inr (if \<not> truthy (dict_get coverage ''has_coverage'') then ws @ [coverage_warning]
               else ws))"

text \<open>Lines 126 to 129.\<close>

definition destinations_of :: "safe_place list \<Rightarrow> destination_dict list" where
  "destinations_of safe_places =
     map (\<lambda>place. \<lparr>dest_lat = place_latitude place, dest_lng = place_longitude place,
                   dest_name = place_name place, dest_id = place_id place\<rparr>)
       (take 5 safe_places)"

text \<open>
  Line 139: \<^verbatim>\<open>next((place for place in safe_places if place.id == dest_info["id"]), destination)\<close>.
\<close>

definition cross_reference ::
  "safe_place list \<Rightarrow> destination_dict \<Rightarrow> safe_place option \<Rightarrow> safe_place option" where
  "cross_reference safe_places dest_info destination =
     (case find (\<lambda>place. place_id place = dest_id dest_info) safe_places of
        Some place \<Rightarrow> Some place
      | None \<Rightarrow> destination)"

text \<open>Lines 122 to 141.\<close>

definition routing_stage ::
  "'z collaborators \<Rightarrow> real \<Rightarrow> real \<Rightarrow> safe_place list \<Rightarrow> 'z list \<Rightarrow> string list \<Rightarrow>
   route option \<times> safe_place option \<times> string list" where
  "routing_stage env latitude longitude safe_places danger_zones ws =
     (let destination = (case safe_places of place # _ \<Rightarrow> Some place | [] \<Rightarrow> None) in
      if safe_places \<noteq> [] then
        (case get_route_to_nearest_safe_place env latitude longitude
                (destinations_of safe_places) danger_zones of
           Inl exc \<Rightarrow> (None, destination, ws @ [''Could not calculate route: '' @ message exc])
         | Inr None \<Rightarrow> (None, destination, ws)
         | Inr (Some (rt, dest_info)) \<Rightarrow>
             (Some rt, cross_reference safe_places dest_info destination, ws))
      else (None, destination, ws))"

text \<open>Lines 143 to 182.\<close>

definition assemble ::
  "real \<Rightarrow> real \<Rightarrow> real option \<Rightarrow> alert_var \<Rightarrow> route option \<Rightarrow> safe_place option \<Rightarrow>
   string list \<Rightarrow> guidance_result" where
  "assemble latitude longitude closest alert rt destination ws =
     (let direction =
            (case destination of
               Some d \<Rightarrow>
                 Some (bearing_to_cardinal latitude longitude (place_latitude d) (place_longitude d))
             | None \<Rightarrow> None);
          distance_km = (case destination of Some d \<Rightarrow> Some (place_distance_km d) | None \<Rightarrow> None);
          step_texts =
            (case rt of
               Some r \<Rightarrow> filter (\<lambda>s. s \<noteq> []) (map instruction (steps r))
             | None \<Rightarrow> []);
          text =
            build_guidance_text (map_option place_name destination) direction distance_km
              (map_option route_km rt) (map_option route_minutes rt) step_texts
              (alert_text alert) closest ws
      in \<lparr>guidance_text = text,
          alert_level = alert_text alert,
          closest_fire_km = closest,
          destination_name = map_option place_name destination,
          destination_direction = direction,
          destination_distance_km = distance_km,
          route_distance_km = map_option route_km rt,
          route_duration_minutes = map_option route_minutes rt,
          route_steps = take 3 step_texts,
          warnings = ws\<rparr>)"

text \<open>The whole function, lines 88 to 182.\<close>

definition build_evacuation_guidance ::
  "'z collaborators \<Rightarrow> real \<Rightarrow> real \<Rightarrow> error + guidance_result" where
  "build_evacuation_guidance env latitude longitude =
     (case risk_stage env latitude longitude [] of
        (fires, danger_zones, closest, alert, ws1) \<Rightarrow>
          (case safe_place_stage env latitude longitude danger_zones ws1 of
             (safe_places, ws2) \<Rightarrow>
               (case coverage_stage env latitude longitude danger_zones ws2 of
                  Inl exc \<Rightarrow> Inl exc
                | Inr ws3 \<Rightarrow>
                    (case routing_stage env latitude longitude safe_places danger_zones ws3 of
                       (rt, destination, ws4) \<Rightarrow>
                         Inr (assemble latitude longitude closest alert rt destination ws4)))))"

subsection \<open>Notions used to state the properties\<close>

text \<open>The number of tenths of a kilometre nearest to \<open>\<bar>km\<bar>\<close>, ties to the even one.\<close>

definition nearest_tenths :: "real \<Rightarrow> nat" where
  "nearest_tenths km = nat (py_round (\<bar>km\<bar> * 10))"

text \<open>
  The first \<^verbatim>\<open>try\<close> block raises \<open>exc\<close>: the fire feed fails, or one of the two
  derivations from its answer does.
\<close>

definition fire_data_fails :: "'z collaborators \<Rightarrow> real \<Rightarrow> real \<Rightarrow> error \<Rightarrow> bool" where
  "fire_data_fails env latitude longitude exc \<longleftrightarrow>
     fetch_fires env latitude longitude 50 = Inl exc \<or>
     (\<exists>fires. fetch_fires env latitude longitude 50 = Inr fires \<and>
        (create_danger_zones env fires = Inl exc \<or>
         (\<exists>zones. create_danger_zones env fires = Inr zones \<and>
            determine_alert_level env
              (case fires of f # _ \<Rightarrow> Some (fire_distance_km f) | [] \<Rightarrow> None)
              (length fires) = Inl exc)))"

subsection \<open>Sample requests\<close>

definition school :: safe_place where
  "school =
     \<lparr>place_id = ''p1'', place_name = ''School'', place_latitude = 1, place_longitude = 0,
      place_distance_km = 10, is_in_danger_zone = False\<rparr>"

definition stadium :: safe_place where
  "stadium =
     \<lparr>place_id = ''p2'', place_name = ''Stadium'', place_latitude = 0, place_longitude = 1,
      place_distance_km = 20, is_in_danger_zone = False\<rparr>"

definition depot :: safe_place where
  "depot =
     \<lparr>place_id = ''p3'', place_name = ''Depot'', place_latitude = - 1, place_longitude = 0,
      place_distance_km = 2, is_in_danger_zone = True\<rparr>"

definition long_route :: route where
  "long_route =
     \<lparr>route_km = 12, route_minutes = 15,
      steps = map (\<lambda>s. \<lparr>instruction = s\<rparr>)
        [''Head north'', '''', ''Turn left'', '''', ''Turn right'', ''Arrive'']\<rparr>"

text \<open>Every collaborator answers; the router chooses the second candidate.\<close>

definition all_up :: "unit collaborators" where
  "all_up =
     \<lparr>fetch_fires = (\<lambda>_ _ _. Inr [\<lparr>fire_distance_km = 5\<rparr>]),
      create_danger_zones = (\<lambda>_. Inr [()]),
      determine_alert_level = (\<lambda>_ _. Inr HIGH),
      fetch_safe_places = (\<lambda>_ _ _ _. Inr [depot, school, stadium]),
      estimate_coverage_simple = (\<lambda>_ _ _. Inr [''has_coverage'' \<mapsto> PyBool True]),
      get_route_to_nearest_safe_place =
        (\<lambda>_ _ _ _. Inr (Some (long_route,
           \<lparr>dest_lat = 0, dest_lng = 1, dest_name = ''Stadium'', dest_id = ''p2''\<rparr>)))\<rparr>"

definition coverage_down :: "unit collaborators" where
  "coverage_down =
     all_up\<lparr>estimate_coverage_simple := (\<lambda>_ _ _. Inl (Error ''coverage model unavailable''))\<rparr>"

definition feed_down :: "unit collaborators" where
  "feed_down = all_up\<lparr>fetch_fires := (\<lambda>_ _ _. Inl (Error ''feed timeout''))\<rparr>"

definition directory_down :: "unit collaborators" where
  "directory_down = all_up\<lparr>fetch_safe_places := (\<lambda>_ _ _ _. Inl (Error ''directory unreachable''))\<rparr>"

definition all_down :: "unit collaborators" where
  "all_down =
     \<lparr>fetch_fires = (\<lambda>_ _ _. Inl (Error ''feed timeout'')),
      create_danger_zones = (\<lambda>_. Inl (Error ''no geometry'')),
      determine_alert_level = (\<lambda>_ _. Inl (Error ''no classifier'')),
      fetch_safe_places = (\<lambda>_ _ _ _. Inl (Error ''directory unreachable'')),
      estimate_coverage_simple = (\<lambda>_ _ _. Inr Map.empty),
      get_route_to_nearest_safe_place = (\<lambda>_ _ _ _. Inl (Error ''router unreachable''))\<rparr>"


text \<open>The router answers with a destination that is none of the candidates.\<close>

definition foreign_choice :: "unit collaborators" where
  "foreign_choice =
     all_up\<lparr>get_route_to_nearest_safe_place :=
       (\<lambda>_ _ _ _. Inr (Some (long_route,
          \<lparr>dest_lat = 9, dest_lng = 9, dest_name = ''Elsewhere'', dest_id = ''zz''\<rparr>)))\<rparr>"


section \<open>Properties\<close>

subsection \<open>Rounding and formatting\<close>

lemma str_nat_digit: "n < 10 \<Longrightarrow> str_nat n = [digit_char n]"
  by (simp add: str_nat.simps)

lemma py_round_close: "\<bar>real_of_int (py_round x) - x\<bar> \<le> 1 / 2"
  unfolding py_round_def Let_def by (auto; linarith)

lemma py_round_nonneg: "0 \<le> x \<Longrightarrow> 0 \<le> py_round x"
  unfolding py_round_def Let_def by (auto; linarith?)

lemma format_one_decimal:
  "format_fixed 1 km =
     (if km < 0 then ''-'' else '''') @ str_nat (nearest_tenths km div 10) @ ''.'' @
     [digit_char (nearest_tenths km mod 10)]"
  by (simp add: format_fixed_def nearest_tenths_def Let_def str_nat_digit)

lemma nearest_tenths_close: "\<bar>real (nearest_tenths km) / 10 - \<bar>km\<bar>\<bar> \<le> 1 / 20"
proof -
  have "0 \<le> py_round (\<bar>km\<bar> * 10)"
    by (rule py_round_nonneg) simp
  then have "real (nearest_tenths km) = real_of_int (py_round (\<bar>km\<bar> * 10))"
    by (simp add: nearest_tenths_def)
  moreover have "\<bar>real_of_int (py_round (\<bar>km\<bar> * 10)) - \<bar>km\<bar> * 10\<bar> \<le> 1 / 2"
    by (rule py_round_close)
  ultimately show ?thesis
    by (simp add: field_simps abs_le_iff)
qed

subsection \<open>The instruction composer\<close>

text \<open>
  Claim C3. The base sentence is chosen by the first matching case in the order
  critical or high, medium, a closest-fire distance present, otherwise; the distance
  clause follows when the distance is present, written with one decimal, the written
  number being \<open>nearest_tenths km / 10\<close>, which is within a twentieth of the distance; the
  warning clause follows when the warning list is non-empty and holds its first element
  only.
\<close>

theorem instruction_text_policy:
  "build_instruction_text lvl closest ws =
     (if lvl = ''critical'' \<or> lvl = ''high'' then ''Immediate evacuation is recommended.''
      else if lvl = ''medium'' then ''Move carefully and prepare to leave the area.''
      else if closest \<noteq> None then ''No immediate evacuation is required, but stay alert.''
      else ''No nearby fire was detected from the current feed.'') @
     (case closest of
        None \<Rightarrow> ''''
      | Some km \<Rightarrow>
          '' The nearest fire is about '' @
          (if km < 0 then ''-'' else '''') @ str_nat (nearest_tenths km div 10) @ ''.'' @
          [digit_char (nearest_tenths km mod 10)] @ '' kilometers away.'') @
     (case ws of [] \<Rightarrow> '''' | w # rest \<Rightarrow> '' Warning: '' @ w @ ''.'')
   \<and> (\<forall>km. \<bar>real (nearest_tenths km) / 10 - \<bar>km\<bar>\<bar> \<le> 1 / 20)"
proof (rule conjI)
  show "\<forall>km. \<bar>real (nearest_tenths km) / 10 - \<bar>km\<bar>\<bar> \<le> 1 / 20"
    using nearest_tenths_close by blast
qed (unfold build_instruction_text_def Let_def format_one_decimal,
     simp split: option.split list.split)

theorem instruction_text_policy_witness:
  "build_instruction_text ''low'' (Some 12.25) [''w1'', ''w2''] =
     ''No immediate evacuation is required, but stay alert. The nearest fire is about 12.2 kilometers away. Warning: w1.'' \<and>
   build_instruction_text ''high'' None [] = ''Immediate evacuation is recommended.''"
  using instruction_text_policy [of "''low''" "Some 12.25" "[''w1'', ''w2'']"]
    instruction_text_policy [of "''high''" None "[]"]
  by (simp add: nearest_tenths_def py_round_def str_nat.simps digit_char_def)

subsection \<open>The guidance text composer\<close>

text \<open>
  Claim C4. When the direction is \<^verbatim>\<open>None\<close> or empty, or the destination distance is
  \<^verbatim>\<open>None\<close>, the text is the instruction composer's sentence followed by the fixed fallback
  clause, whatever the destination name, the route distance, the route duration and the
  route steps are: nothing of them is written.
\<close>

theorem guidance_text_fallback:
  assumes "direction = None \<or> direction = Some [] \<or> distance_km = None"
  shows "build_guidance_text dest_name_opt direction distance_km rd rm step_texts lvl closest ws =
           build_instruction_text lvl closest ws @
           '' A verified escape path is not available right now. If conditions worsen, move away from smoke and flames, keep low, and contact emergency services.''"
  using assms
  by (auto simp: build_guidance_text_def fallback_clause_def Let_def split: option.split)

theorem guidance_text_fallback_witness:
  "((None :: string option) = None \<or> (None :: string option) = Some [] \<or> Some (10 :: real) = None) \<and>
   build_guidance_text (Some ''School'') None (Some 10) (Some 12) (Some 15)
     [''Head north'', ''Turn left''] ''high'' None [''Could not calculate route: timeout''] =
   ''Immediate evacuation is recommended. Warning: Could not calculate route: timeout. A verified escape path is not available right now. If conditions worsen, move away from smoke and flames, keep low, and contact emergency services.''"
  using guidance_text_fallback [of None "Some 10" "Some ''School''" "Some 12" "Some 15"
      "[''Head north'', ''Turn left'']" "''high''" None "[''Could not calculate route: timeout'']"]
  by (simp add: build_instruction_text_def)

subsection \<open>The orchestrator, stage by stage\<close>

lemma build_returns:
  assumes "risk_stage env latitude longitude [] = (fires, zones, closest, alert, ws1)"
    and "safe_place_stage env latitude longitude zones ws1 = (places, ws2)"
    and "coverage_stage env latitude longitude zones ws2 = Inr ws3"
    and "routing_stage env latitude longitude places zones ws3 = (rt, dest, ws4)"
  shows "build_evacuation_guidance env latitude longitude =
           Inr (assemble latitude longitude closest alert rt dest ws4)"
  using assms by (simp add: build_evacuation_guidance_def)

lemma build_InrE:
  assumes "build_evacuation_guidance env latitude longitude = Inr r"
  obtains fires zones closest alert ws1 places ws2 ws3 rt dest ws4 where
    "risk_stage env latitude longitude [] = (fires, zones, closest, alert, ws1)"
    "safe_place_stage env latitude longitude zones ws1 = (places, ws2)"
    "coverage_stage env latitude longitude zones ws2 = Inr ws3"
    "routing_stage env latitude longitude places zones ws3 = (rt, dest, ws4)"
    "r = assemble latitude longitude closest alert rt dest ws4"
  using assms
  by (auto simp: build_evacuation_guidance_def split: prod.splits sum.splits)

lemma risk_stage_failed:
  assumes "fire_data_fails env latitude longitude exc"
  shows "risk_stage env latitude longitude ws = risk_failed exc ws"
  using assms by (auto simp: fire_data_fails_def risk_stage_def Let_def)

lemma risk_stage_cases:
  obtains (ok) fires zones level where
      "risk_stage env latitude longitude ws =
         (fires, zones, (case fires of f # _ \<Rightarrow> Some (fire_distance_km f) | [] \<Rightarrow> None),
          Member level, ws)"
  | (failed) exc where
      "fire_data_fails env latitude longitude exc"
      "risk_stage env latitude longitude ws = risk_failed exc ws"
proof (cases "\<exists>exc. fire_data_fails env latitude longitude exc")
  case True
  then show ?thesis using failed risk_stage_failed by blast
next
  case False
  then show ?thesis using ok [of _ _ _]
    by (fastforce simp: fire_data_fails_def risk_stage_def Let_def split: sum.splits)
qed

lemma risk_stage_alert:
  assumes "risk_stage env latitude longitude ws = (fires, zones, closest, alert, ws1)"
  shows "\<exists>level. alert_text alert = enum_value level"
proof (cases rule: risk_stage_cases [of env latitude longitude ws])
  case (ok fires' zones' level)
  with assms show ?thesis by auto
next
  case (failed exc)
  with assms have "alert_text alert = enum_value NONE"
    by (auto simp: risk_failed_def)
  then show ?thesis ..
qed

lemma safe_place_stage_extends:
  "safe_place_stage env latitude longitude zones ws = (places, ws') \<Longrightarrow> set ws \<subseteq> set ws'"
  by (auto simp: safe_place_stage_def split: sum.splits)

lemma coverage_stage_extends:
  "coverage_stage env latitude longitude zones ws = Inr ws' \<Longrightarrow> set ws \<subseteq> set ws'"
  by (auto simp: coverage_stage_def split: sum.splits if_splits)

lemma routing_stage_extends:
  "routing_stage env latitude longitude places zones ws = (rt, dest, ws') \<Longrightarrow> set ws \<subseteq> set ws'"
  by (auto simp: routing_stage_def Let_def split: sum.splits option.splits if_splits)

lemma instruction_text_nonempty: "build_instruction_text lvl closest ws \<noteq> []"
  by (simp add: build_instruction_text_def Let_def split: option.split list.split)

lemma guidance_text_nonempty:
  "build_guidance_text n d km rd rm step_texts lvl closest ws \<noteq> []"
  by (simp add: build_guidance_text_def Let_def instruction_text_nonempty
      split: option.split prod.split)

lemma assemble_fields:
  "warnings (assemble latitude longitude closest alert rt dest ws) = ws"
  "alert_level (assemble latitude longitude closest alert rt dest ws) = alert_text alert"
  "closest_fire_km (assemble latitude longitude closest alert rt dest ws) = closest"
  "guidance_text (assemble latitude longitude closest alert rt dest ws) \<noteq> []"
  "destination_name (assemble latitude longitude closest alert rt dest ws) =
     map_option place_name dest"
  "route_distance_km (assemble latitude longitude closest alert rt dest ws) =
     map_option route_km rt"
  "route_steps (assemble latitude longitude closest alert rt dest ws) =
     take 3 (case rt of Some r \<Rightarrow> filter (\<lambda>s. s \<noteq> []) (map instruction (steps r)) | None \<Rightarrow> [])"
  by (simp_all add: assemble_def Let_def guidance_text_nonempty)

subsection \<open>Failure isolation\<close>

text \<open>
  Claim C1, as stated, fails: the call of the coverage estimator stands outside every
  \<^verbatim>\<open>try\<close>, so an exception of the estimator leaves \<^verbatim>\<open>build_evacuation_guidance\<close>.
  Here every other collaborator answers and the request raises the estimator's exception.
\<close>

theorem coverage_failure_propagates:
  "build_evacuation_guidance coverage_down 0 0 = Inl (Error ''coverage model unavailable'')"
  by (simp add: build_evacuation_guidance_def risk_stage_def safe_place_stage_def
      coverage_stage_def coverage_down_def all_up_def Let_def)

text \<open>
  Claim C1, amended. Whatever the five other collaborators do, when the coverage
  estimator returns an estimate the request returns a result whose guidance text is not
  empty and whose alert level is the string of a member of the enumeration, and each
  failure of the fire data, of the safe-place directory and of the router is a warning
  of the result.
\<close>

theorem build_returns_when_coverage_returns:
  assumes "risk_stage env latitude longitude [] = (fires, zones, closest, alert, ws1)"
    and "safe_place_stage env latitude longitude zones ws1 = (places, ws2)"
    and "estimate_coverage_simple env latitude longitude zones = Inr cov"
  shows "\<exists>r. build_evacuation_guidance env latitude longitude = Inr r \<and>
           guidance_text r \<noteq> [] \<and>
           (\<exists>level. alert_level r = enum_value level) \<and>
           (\<forall>exc. fire_data_fails env latitude longitude exc \<longrightarrow>
              ''Could not fetch fire data: '' @ message exc \<in> set (warnings r)) \<and>
           (\<forall>exc. fetch_safe_places env latitude longitude 20 zones = Inl exc \<longrightarrow>
              ''Could not fetch safe places: '' @ message exc \<in> set (warnings r)) \<and>
           (\<forall>exc. places \<noteq> [] \<and>
              get_route_to_nearest_safe_place env latitude longitude
                (destinations_of places) zones = Inl exc \<longrightarrow>
              ''Could not calculate route: '' @ message exc \<in> set (warnings r))"
proof -
  obtain ws3 where cov: "coverage_stage env latitude longitude zones ws2 = Inr ws3"
    using assms(3) by (simp add: coverage_stage_def)
  obtain rt dest ws4 where
    rou: "routing_stage env latitude longitude places zones ws3 = (rt, dest, ws4)"
    by (cases "routing_stage env latitude longitude places zones ws3") auto
  let ?r = "assemble latitude longitude closest alert rt dest ws4"
  have ret: "build_evacuation_guidance env latitude longitude = Inr ?r"
    by (rule build_returns [OF assms(1,2) cov rou])
  have level: "\<exists>level. alert_level ?r = enum_value level"
    using risk_stage_alert [OF assms(1)] by (simp add: assemble_fields)
  have sub12: "set ws1 \<subseteq> set ws2"
    by (rule safe_place_stage_extends [OF assms(2)])
  have sub23: "set ws2 \<subseteq> set ws3"
    by (rule coverage_stage_extends [OF cov])
  have sub34: "set ws3 \<subseteq> set ws4"
    by (rule routing_stage_extends [OF rou])
  have fire: "''Could not fetch fire data: '' @ message exc \<in> set (warnings ?r)"
    if "fire_data_fails env latitude longitude exc" for exc
  proof -
    have "risk_stage env latitude longitude [] = risk_failed exc []"
      by (rule risk_stage_failed [OF that])
    with assms(1) have "''Could not fetch fire data: '' @ message exc \<in> set ws1"
      by (auto simp: risk_failed_def)
    with sub12 sub23 sub34 show ?thesis
      by (auto simp: assemble_fields)
  qed
  have place: "''Could not fetch safe places: '' @ message exc \<in> set (warnings ?r)"
    if "fetch_safe_places env latitude longitude 20 zones = Inl exc" for exc
  proof -
    from that assms(2) have "''Could not fetch safe places: '' @ message exc \<in> set ws2"
      by (auto simp: safe_place_stage_def)
    with sub23 sub34 show ?thesis
      by (auto simp: assemble_fields)
  qed
  have router: "''Could not calculate route: '' @ message exc \<in> set (warnings ?r)"
    if "places \<noteq> []"
      and "get_route_to_nearest_safe_place env latitude longitude
             (destinations_of places) zones = Inl exc" for exc
  proof -
    from that rou have "''Could not calculate route: '' @ message exc \<in> set ws4"
      by (auto simp: routing_stage_def Let_def)
    then show ?thesis
      by (simp add: assemble_fields)
  qed
  show ?thesis
    using ret level fire place router by (intro exI [of _ ?r]) (simp add: assemble_fields)
qed

theorem build_returns_when_coverage_returns_witness:
  "risk_stage all_down 0 0 [] =
     ([], [], None, Plain ''none'', [''Could not fetch fire data: feed timeout'']) \<and>
   safe_place_stage all_down 0 0 [] [''Could not fetch fire data: feed timeout''] =
     ([], [''Could not fetch fire data: feed timeout'',
           ''Could not fetch safe places: directory unreachable'']) \<and>
   estimate_coverage_simple all_down 0 0 [] = Inr Map.empty \<and>
   (\<exists>r. build_evacuation_guidance all_down 0 0 = Inr r \<and> guidance_text r \<noteq> [] \<and>
      (\<exists>level. alert_level r = enum_value level))"
proof -
  have 1: "risk_stage all_down 0 0 [] =
     ([], [], None, Plain ''none'', [''Could not fetch fire data: feed timeout''])"
    by (simp add: risk_stage_def risk_failed_def all_down_def)
  have 2: "safe_place_stage all_down 0 0 [] [''Could not fetch fire data: feed timeout''] =
     ([], [''Could not fetch fire data: feed timeout'',
           ''Could not fetch safe places: directory unreachable''])"
    by (simp add: safe_place_stage_def all_down_def)
  have 3: "estimate_coverage_simple all_down 0 0 [] = Inr Map.empty"
    by (simp add: all_down_def)
  show ?thesis
    using build_returns_when_coverage_returns [OF 1 2 3] 1 2 3 by blast
qed

text \<open>
  Claim C2. When the fire feed or one of the two derivations raises, the risk stage
  returns no fire, no danger zone, no closest-fire distance, the level \<^verbatim>\<open>"none"\<close> and
  one more warning; the later stages run on these values (the coverage estimator is
  called with no danger zone) and the result carries the level, the missing distance and
  the warning.
\<close>

theorem fire_failure_isolated:
  assumes "fire_data_fails env latitude longitude exc"
  shows "risk_stage env latitude longitude ws =
           ([], [], None, Plain ''none'', ws @ [''Could not fetch fire data: '' @ message exc]) \<and>
         (\<forall>cov. estimate_coverage_simple env latitude longitude [] = Inr cov \<longrightarrow>
            (\<exists>r. build_evacuation_guidance env latitude longitude = Inr r \<and>
               alert_level r = ''none'' \<and> closest_fire_km r = None \<and>
               ''Could not fetch fire data: '' @ message exc \<in> set (warnings r)))"
proof (intro conjI allI impI)
  show "risk_stage env latitude longitude ws =
          ([], [], None, Plain ''none'', ws @ [''Could not fetch fire data: '' @ message exc])"
    using risk_stage_failed [OF assms] by (simp add: risk_failed_def)
next
  fix cov
  assume est: "estimate_coverage_simple env latitude longitude [] = Inr cov"
  let ?w = "''Could not fetch fire data: '' @ message exc"
  have ris: "risk_stage env latitude longitude [] = ([], [], None, Plain ''none'', [?w])"
    using risk_stage_failed [OF assms] by (simp add: risk_failed_def)
  obtain places ws2 where
    saf: "safe_place_stage env latitude longitude [] [?w] = (places, ws2)"
    by (cases "safe_place_stage env latitude longitude [] [?w]") auto
  obtain ws3 where cov: "coverage_stage env latitude longitude [] ws2 = Inr ws3"
    using est by (simp add: coverage_stage_def)
  obtain rt dest ws4 where
    rou: "routing_stage env latitude longitude places [] ws3 = (rt, dest, ws4)"
    by (cases "routing_stage env latitude longitude places [] ws3") auto
  have "?w \<in> set ws4"
    using safe_place_stage_extends [OF saf] coverage_stage_extends [OF cov]
      routing_stage_extends [OF rou] by auto
  then show "\<exists>r. build_evacuation_guidance env latitude longitude = Inr r \<and>
      alert_level r = ''none'' \<and> closest_fire_km r = None \<and> ?w \<in> set (warnings r)"
    using build_returns [OF ris saf cov rou] by (simp add: assemble_fields)
qed

theorem fire_failure_isolated_witness:
  "fire_data_fails feed_down 0 0 (Error ''feed timeout'') \<and>
   risk_stage feed_down 0 0 [] =
     ([], [], None, Plain ''none'', [''Could not fetch fire data: feed timeout'']) \<and>
   (\<exists>r. build_evacuation_guidance feed_down 0 0 = Inr r \<and>
      alert_level r = ''none'' \<and> closest_fire_km r = None \<and>
      ''Could not fetch fire data: feed timeout'' \<in> set (warnings r))"
proof -
  have f: "fire_data_fails feed_down 0 0 (Error ''feed timeout'')"
    by (simp add: fire_data_fails_def feed_down_def)
  have e: "estimate_coverage_simple feed_down 0 0 [] = Inr [''has_coverage'' \<mapsto> PyBool True]"
    by (simp add: feed_down_def all_up_def)
  show ?thesis
    using fire_failure_isolated [OF f, of "[]"] f e by simp
qed

subsection \<open>Sample requests, stage by stage\<close>

lemma all_up_risk:
  "risk_stage all_up 0 0 [] =
     ([\<lparr>fire_distance_km = 5\<rparr>], [()], Some 5, Member HIGH, [])"
  by (simp add: risk_stage_def all_up_def)

lemma all_up_places: "safe_place_stage all_up 0 0 [()] [] = ([school, stadium], [])"
  by (simp add: safe_place_stage_def all_up_def depot_def school_def stadium_def)

lemma all_up_coverage: "coverage_stage all_up 0 0 [()] [] = Inr []"
  by (simp add: coverage_stage_def all_up_def dict_get_def)

lemma all_up_routing:
  "routing_stage all_up 0 0 [school, stadium] [()] [] = (Some long_route, Some stadium, [])"
  by (simp add: routing_stage_def all_up_def destinations_of_def cross_reference_def
      school_def stadium_def)

lemma all_up_build:
  "build_evacuation_guidance all_up 0 0 =
     Inr (assemble 0 0 (Some 5) (Member HIGH) (Some long_route) (Some stadium) [])"
  by (rule build_returns [OF all_up_risk all_up_places all_up_coverage all_up_routing])

subsection \<open>Route steps\<close>

text \<open>
  Claim C5. The \<^verbatim>\<open>route_steps\<close> of a result are at most three and none is the empty
  string, whatever the route holds; with no route (the route distance of the result is
  \<^verbatim>\<open>None\<close>) there is no step.
\<close>

theorem route_steps_at_most_three:
  assumes "build_evacuation_guidance env latitude longitude = Inr r"
  shows "length (route_steps r) \<le> 3 \<and> [] \<notin> set (route_steps r) \<and>
         (route_distance_km r = None \<longrightarrow> route_steps r = [])"
proof -
  from assms obtain closest alert rt dest ws where
    r: "r = assemble latitude longitude closest alert rt dest ws"
    by (rule build_InrE)
  have "[] \<notin> set (route_steps r)"
    unfolding r assemble_fields by (auto dest: in_set_takeD split: option.splits)
  then show ?thesis
    unfolding r assemble_fields by (auto split: option.splits)
qed

theorem route_steps_at_most_three_witness:
  "build_evacuation_guidance all_up 0 0 =
     Inr (assemble 0 0 (Some 5) (Member HIGH) (Some long_route) (Some stadium) []) \<and>
   length (steps long_route) = 6 \<and>
   route_steps (assemble 0 0 (Some 5) (Member HIGH) (Some long_route) (Some stadium) []) =
     [''Head north'', ''Turn left'', ''Turn right''] \<and>
   length (route_steps
     (assemble 0 0 (Some 5) (Member HIGH) (Some long_route) (Some stadium) [])) \<le> 3"
  using route_steps_at_most_three [OF all_up_build] all_up_build
  by (simp add: assemble_fields long_route_def)

subsection \<open>The safe-place stage\<close>

text \<open>
  Claim C6. When the directory answers, the stage returns the places that are not
  flagged as inside a danger zone, in the order of the answer, and adds no warning.
  When the directory raises, the stage returns no place and one more warning; the
  request still returns (the coverage estimator returning), with that warning and no
  destination.
\<close>

theorem safe_place_stage_filters:
  "(\<forall>places. fetch_safe_places env latitude longitude 20 zones = Inr places \<longrightarrow>
      safe_place_stage env latitude longitude zones ws =
        (filter (\<lambda>p. \<not> is_in_danger_zone p) places, ws)) \<and>
   (\<forall>exc. fetch_safe_places env latitude longitude 20 zones = Inl exc \<longrightarrow>
      safe_place_stage env latitude longitude zones ws =
        ([], ws @ [''Could not fetch safe places: '' @ message exc]) \<and>
      (\<forall>fires closest alert ws1 cov.
         risk_stage env latitude longitude [] = (fires, zones, closest, alert, ws1) \<and>
         estimate_coverage_simple env latitude longitude zones = Inr cov \<longrightarrow>
         (\<exists>r. build_evacuation_guidance env latitude longitude = Inr r \<and>
            destination_name r = None \<and>
            ''Could not fetch safe places: '' @ message exc \<in> set (warnings r))))"
proof (intro conjI allI impI)
  fix places
  assume "fetch_safe_places env latitude longitude 20 zones = Inr places"
  then show "safe_place_stage env latitude longitude zones ws =
      (filter (\<lambda>p. \<not> is_in_danger_zone p) places, ws)"
    by (simp add: safe_place_stage_def)
next
  fix exc
  assume "fetch_safe_places env latitude longitude 20 zones = Inl exc"
  then show "safe_place_stage env latitude longitude zones ws =
      ([], ws @ [''Could not fetch safe places: '' @ message exc])"
    by (simp add: safe_place_stage_def)
next
  fix exc fires closest alert ws1 cov
  let ?w = "''Could not fetch safe places: '' @ message exc"
  assume fail: "fetch_safe_places env latitude longitude 20 zones = Inl exc"
    and "risk_stage env latitude longitude [] = (fires, zones, closest, alert, ws1) \<and>
         estimate_coverage_simple env latitude longitude zones = Inr cov"
  then have ris: "risk_stage env latitude longitude [] = (fires, zones, closest, alert, ws1)"
    and est: "estimate_coverage_simple env latitude longitude zones = Inr cov"
    by simp_all
  have saf: "safe_place_stage env latitude longitude zones ws1 = ([], ws1 @ [?w])"
    using fail by (simp add: safe_place_stage_def)
  obtain ws3 where cov: "coverage_stage env latitude longitude zones (ws1 @ [?w]) = Inr ws3"
    using est by (simp add: coverage_stage_def)
  have rou: "routing_stage env latitude longitude [] zones ws3 = (None, None, ws3)"
    by (simp add: routing_stage_def)
  have "?w \<in> set ws3"
    using coverage_stage_extends [OF cov] by auto
  then show "\<exists>r. build_evacuation_guidance env latitude longitude = Inr r \<and>
      destination_name r = None \<and> ?w \<in> set (warnings r)"
    using build_returns [OF ris saf cov rou] by (simp add: assemble_fields)
qed

theorem safe_place_stage_filters_witness:
  "fetch_safe_places all_up 0 0 20 [()] = Inr [depot, school, stadium] \<and>
   safe_place_stage all_up 0 0 [()] [] = ([school, stadium], []) \<and>
   fetch_safe_places directory_down 0 0 20 [()] = Inl (Error ''directory unreachable'') \<and>
   safe_place_stage directory_down 0 0 [()] [] =
     ([], [''Could not fetch safe places: directory unreachable'']) \<and>
   (\<exists>r. build_evacuation_guidance directory_down 0 0 = Inr r \<and>
      destination_name r = None \<and>
      ''Could not fetch safe places: directory unreachable'' \<in> set (warnings r))"
proof -
  have up: "fetch_safe_places all_up 0 0 20 [()] = Inr [depot, school, stadium]"
    by (simp add: all_up_def)
  have down: "fetch_safe_places directory_down 0 0 20 [()] = Inl (Error ''directory unreachable'')"
    by (simp add: directory_down_def)
  have ris: "risk_stage directory_down 0 0 [] =
      ([\<lparr>fire_distance_km = 5\<rparr>], [()], Some 5, Member HIGH, [])"
    by (simp add: risk_stage_def directory_down_def all_up_def)
  have est: "estimate_coverage_simple directory_down 0 0 [()] =
      Inr [''has_coverage'' \<mapsto> PyBool True]"
    by (simp add: directory_down_def all_up_def)
  have flt: "filter (\<lambda>p. \<not> is_in_danger_zone p) [depot, school, stadium] = [school, stadium]"
    by (simp add: depot_def school_def stadium_def)
  show ?thesis
    using safe_place_stage_filters [of all_up 0 0 "[()]" "[]"]
      safe_place_stage_filters [of directory_down 0 0 "[()]" "[]"] up down ris est flt
    by (simp del: fun_upd_apply)
qed

subsection \<open>The coverage stage\<close>






subsection \<open>The routing stage and the destination\<close>

lemma cross_reference_found:
  assumes "p \<in> set places" and "place_id p = dest_id info"
  shows "\<exists>q. cross_reference places info dflt = Some q \<and> q \<in> set places \<and>
           place_id q = dest_id info"
proof -
  from assms have "find (\<lambda>place. place_id place = dest_id info) places \<noteq> None"
    by (auto simp: find_None_iff)
  then obtain q where q: "find (\<lambda>place. place_id place = dest_id info) places = Some q"
    by auto
  then have "q \<in> set places \<and> place_id q = dest_id info"
    by (auto simp: find_Some_iff)
  with q show ?thesis
    by (simp add: cross_reference_def)
qed

lemma cross_reference_not_found:
  assumes "\<forall>p\<in>set places. place_id p \<noteq> dest_id info"
  shows "cross_reference places info dflt = dflt"
proof -
  from assms have "find (\<lambda>place. place_id place = dest_id info) places = None"
    by (simp add: find_None_iff)
  then show ?thesis
    by (simp add: cross_reference_def)
qed

lemma cross_reference_member:
  assumes "cross_reference places info dflt = Some d"
  shows "d \<in> set places \<or> dflt = Some d"
  using assms by (auto simp: cross_reference_def find_Some_iff split: option.splits)

lemma default_destination: "places \<noteq> [] \<Longrightarrow> (case places of p # _ \<Rightarrow> Some p | [] \<Rightarrow> None) = Some (hd places)"
  by (cases places) simp_all

text \<open>
  Claim C7. With no candidate the router is not consulted: the stage returns no route
  and no destination whatever the router is. With candidates, the router receives the
  dictionaries of the first five of them in their order and the stage depends on the
  router through that one call only; the destination is the first candidate when the
  router raises or returns nothing, and, when the router returns a destination whose
  identifier is that of a candidate, it is a candidate with that identifier.
\<close>

theorem destination_choice:
  "(\<forall>g. routing_stage (env\<lparr>get_route_to_nearest_safe_place := g\<rparr>)
           latitude longitude [] zones ws = (None, None, ws)) \<and>
   (places \<noteq> [] \<longrightarrow>
      destinations_of places =
        map (\<lambda>p. \<lparr>dest_lat = place_latitude p, dest_lng = place_longitude p,
                  dest_name = place_name p, dest_id = place_id p\<rparr>) (take 5 places) \<and>
      length (destinations_of places) \<le> 5 \<and>
      (\<forall>g. g latitude longitude (destinations_of places) zones =
             get_route_to_nearest_safe_place env latitude longitude
               (destinations_of places) zones \<longrightarrow>
           routing_stage (env\<lparr>get_route_to_nearest_safe_place := g\<rparr>)
             latitude longitude places zones ws =
           routing_stage env latitude longitude places zones ws) \<and>
      (\<forall>exc. get_route_to_nearest_safe_place env latitude longitude
               (destinations_of places) zones = Inl exc \<longrightarrow>
           fst (snd (routing_stage env latitude longitude places zones ws)) =
             Some (hd places)) \<and>
      (get_route_to_nearest_safe_place env latitude longitude
         (destinations_of places) zones = Inr None \<longrightarrow>
           fst (snd (routing_stage env latitude longitude places zones ws)) =
             Some (hd places)) \<and>
      (\<forall>rt info. get_route_to_nearest_safe_place env latitude longitude
                   (destinations_of places) zones = Inr (Some (rt, info)) \<and>
                 (\<exists>p\<in>set places. place_id p = dest_id info) \<longrightarrow>
           (\<exists>q. fst (snd (routing_stage env latitude longitude places zones ws)) = Some q \<and>
                q \<in> set places \<and> place_id q = dest_id info)))"
proof (intro conjI allI impI)
  fix g
  show "routing_stage (env\<lparr>get_route_to_nearest_safe_place := g\<rparr>)
          latitude longitude [] zones ws = (None, None, ws)"
    by (simp add: routing_stage_def)
next
  show "destinations_of places =
      map (\<lambda>p. \<lparr>dest_lat = place_latitude p, dest_lng = place_longitude p,
                dest_name = place_name p, dest_id = place_id p\<rparr>) (take 5 places)"
    by (simp add: destinations_of_def)
next
  show "length (destinations_of places) \<le> 5"
    by (simp add: destinations_of_def)
next
  fix g
  assume "g latitude longitude (destinations_of places) zones =
      get_route_to_nearest_safe_place env latitude longitude (destinations_of places) zones"
  then show "routing_stage (env\<lparr>get_route_to_nearest_safe_place := g\<rparr>)
        latitude longitude places zones ws =
      routing_stage env latitude longitude places zones ws"
    by (simp add: routing_stage_def Let_def)
next
  fix exc
  assume "places \<noteq> []"
    and "get_route_to_nearest_safe_place env latitude longitude
           (destinations_of places) zones = Inl exc"
  then show "fst (snd (routing_stage env latitude longitude places zones ws)) =
      Some (hd places)"
    by (simp add: routing_stage_def default_destination)
next
  assume "places \<noteq> []"
    and "get_route_to_nearest_safe_place env latitude longitude
           (destinations_of places) zones = Inr None"
  then show "fst (snd (routing_stage env latitude longitude places zones ws)) =
      Some (hd places)"
    by (simp add: routing_stage_def default_destination)
next
  fix rt info
  assume ne: "places \<noteq> []"
    and "get_route_to_nearest_safe_place env latitude longitude
           (destinations_of places) zones = Inr (Some (rt, info)) \<and>
         (\<exists>p\<in>set places. place_id p = dest_id info)"
  then obtain p where
    ans: "get_route_to_nearest_safe_place env latitude longitude
            (destinations_of places) zones = Inr (Some (rt, info))"
    and p: "p \<in> set places" "place_id p = dest_id info"
    by auto
  from ne ans have "fst (snd (routing_stage env latitude longitude places zones ws)) =
      cross_reference places info (Some (hd places))"
    by (simp add: routing_stage_def default_destination)
  with cross_reference_found [OF p, of "Some (hd places)"]
  show "\<exists>q. fst (snd (routing_stage env latitude longitude places zones ws)) = Some q \<and>
      q \<in> set places \<and> place_id q = dest_id info"
    by simp
qed

theorem destination_choice_witness:
  "[school, stadium] \<noteq> [] \<and>
   get_route_to_nearest_safe_place all_up 0 0 (destinations_of [school, stadium]) [()] =
     Inr (Some (long_route,
       \<lparr>dest_lat = 0, dest_lng = 1, dest_name = ''Stadium'', dest_id = ''p2''\<rparr>)) \<and>
   place_id stadium = ''p2'' \<and>
   (\<exists>q. fst (snd (routing_stage all_up 0 0 [school, stadium] [()] [])) = Some q \<and>
      q \<in> set [school, stadium] \<and> place_id q = ''p2'') \<and>
   length (destinations_of [school, stadium]) \<le> 5"
proof -
  have ans: "get_route_to_nearest_safe_place all_up 0 0 (destinations_of [school, stadium]) [()] =
     Inr (Some (long_route,
       \<lparr>dest_lat = 0, dest_lng = 1, dest_name = ''Stadium'', dest_id = ''p2''\<rparr>))"
    by (simp add: all_up_def destinations_of_def stadium_def)
  have id: "place_id stadium = ''p2''"
    by (simp add: stadium_def)
  have ex: "\<exists>p\<in>set [school, stadium]. place_id p =
      dest_id \<lparr>dest_lat = 0, dest_lng = 1, dest_name = ''Stadium'', dest_id = ''p2''\<rparr>"
    using id by simp
  show ?thesis
    using destination_choice [of all_up 0 0 "[()]" "[]" "[school, stadium]"] ans id ex
    by (simp del: set_simps)
qed

text \<open>
  Claim C10. The destination of a request, when there is one, is one of the places the
  safe-place stage kept, so it is not flagged as inside a danger zone. When the router
  returns a destination whose identifier is that of no kept place, the destination stays
  the first kept place, and the router's route is still the route of the result.
\<close>

theorem destination_among_kept_places:
  assumes "risk_stage env latitude longitude [] = (fires, zones, closest, alert, ws1)"
    and "safe_place_stage env latitude longitude zones ws1 = (places, ws2)"
    and "coverage_stage env latitude longitude zones ws2 = Inr ws3"
    and "routing_stage env latitude longitude places zones ws3 = (rt, dest, ws4)"
  shows "build_evacuation_guidance env latitude longitude =
           Inr (assemble latitude longitude closest alert rt dest ws4) \<and>
         destination_name (assemble latitude longitude closest alert rt dest ws4) =
           map_option place_name dest \<and>
         (\<forall>d. dest = Some d \<longrightarrow> d \<in> set places \<and> \<not> is_in_danger_zone d) \<and>
         (\<forall>r info. places \<noteq> [] \<and>
            get_route_to_nearest_safe_place env latitude longitude
              (destinations_of places) zones = Inr (Some (r, info)) \<and>
            (\<forall>p\<in>set places. place_id p \<noteq> dest_id info) \<longrightarrow>
            dest = Some (hd places) \<and> rt = Some r)"
proof (intro conjI allI impI)
  show "build_evacuation_guidance env latitude longitude =
      Inr (assemble latitude longitude closest alert rt dest ws4)"
    by (rule build_returns [OF assms])
next
  show "destination_name (assemble latitude longitude closest alert rt dest ws4) =
      map_option place_name dest"
    by (simp add: assemble_fields)
next
  fix d
  assume d: "dest = Some d"
  have kept: "\<forall>p\<in>set places. \<not> is_in_danger_zone p"
    using assms(2) by (auto simp: safe_place_stage_def split: sum.splits)
  have "d \<in> set places"
  proof (cases places)
    case Nil
    with assms(4) d show ?thesis
      by (simp add: routing_stage_def)
  next
    case (Cons p ps)
    with assms(4) d show ?thesis
      by (auto simp: routing_stage_def Let_def split: sum.splits option.splits
          dest: cross_reference_member)
  qed
  with kept show "d \<in> set places" and "\<not> is_in_danger_zone d"
    by auto
next
  fix r info
  assume "places \<noteq> [] \<and>
      get_route_to_nearest_safe_place env latitude longitude
        (destinations_of places) zones = Inr (Some (r, info)) \<and>
      (\<forall>p\<in>set places. place_id p \<noteq> dest_id info)"
  then have ne: "places \<noteq> []"
    and ans: "get_route_to_nearest_safe_place env latitude longitude
        (destinations_of places) zones = Inr (Some (r, info))"
    and no: "\<forall>p\<in>set places. place_id p \<noteq> dest_id info"
    by simp_all
  from ne ans assms(4) show "dest = Some (hd places)" and "rt = Some r"
    by (auto simp: routing_stage_def default_destination cross_reference_not_found [OF no])
qed

theorem destination_among_kept_places_witness:
  "risk_stage foreign_choice 0 0 [] =
     ([\<lparr>fire_distance_km = 5\<rparr>], [()], Some 5, Member HIGH, []) \<and>
   safe_place_stage foreign_choice 0 0 [()] [] = ([school, stadium], []) \<and>
   coverage_stage foreign_choice 0 0 [()] [] = Inr [] \<and>
   routing_stage foreign_choice 0 0 [school, stadium] [()] [] =
     (Some long_route, Some school, []) \<and>
   build_evacuation_guidance foreign_choice 0 0 =
     Inr (assemble 0 0 (Some 5) (Member HIGH) (Some long_route) (Some school) []) \<and>
   destination_name (assemble 0 0 (Some 5) (Member HIGH) (Some long_route) (Some school) []) =
     Some ''School''"
proof -
  have 1: "risk_stage foreign_choice 0 0 [] =
     ([\<lparr>fire_distance_km = 5\<rparr>], [()], Some 5, Member HIGH, [])"
    by (simp add: risk_stage_def foreign_choice_def all_up_def)
  have 2: "safe_place_stage foreign_choice 0 0 [()] [] = ([school, stadium], [])"
    by (simp add: safe_place_stage_def foreign_choice_def all_up_def depot_def school_def
        stadium_def)
  have 3: "coverage_stage foreign_choice 0 0 [()] [] = Inr []"
    by (simp add: coverage_stage_def foreign_choice_def all_up_def dict_get_def)
  have 4: "routing_stage foreign_choice 0 0 [school, stadium] [()] [] =
     (Some long_route, Some school, [])"
    by (simp add: routing_stage_def foreign_choice_def cross_reference_def school_def
        stadium_def)
  have 5: "map_option place_name (Some school) = Some ''School''"
    by (simp add: school_def)
  show ?thesis
    using destination_among_kept_places [OF 1 2 3 4] 1 2 3 4 5 by simp
qed

subsection \<open>The bearing calculator\<close>



























end
